theory Spec2Isabelle
  imports Complex_Main "HOL-Library.Sublist"
begin

section \<open>CourseFindr: the course recommendation engine\<close>

text \<open>
  A shallow embedding of \<^verbatim>\<open>app/services/recommendation_engine.py\<close> (class
  \<^verbatim>\<open>CourseRecommendationEngine\<close>) together with the request and response schemas of
  \<^verbatim>\<open>app/schemas/recommendation.py\<close> and the columns of \<^verbatim>\<open>app/models/course.py\<close>
  that the engine reads.

  Conventions of the embedding:
  \<^item> Python floats are exact reals: \<open>0.1\<close> is the rational one tenth, and no rounding
    takes place.
  \<^item> Python strings are \<open>string\<close>; \<^verbatim>\<open>str.lower\<close> is modelled on ASCII letters.
  \<^item> Python truthiness is written out: \<^verbatim>\<open>None\<close> and the empty string are falsy,
    and so is the number zero.
  \<^item> An exception is a value \<open>Inl err\<close> of the result type \<open>error + 'a\<close>.
  \<^item> scikit-learn is not part of the repository. The fitted vectorizer together with
    the TF-IDF matrix is a value of an abstract type \<open>'m\<close>, and the two library entry
    points the engine calls are the fields of a record of functions. Nothing is assumed
    of what they return.
\<close>

subsection \<open>Strings\<close>

definition lower_char :: "char \<Rightarrow> char" where
  "lower_char c =
     (let n = (of_char c :: nat) in if 65 \<le> n \<and> n \<le> 90 then char_of (n + 32) else c)"

text \<open>\<^verbatim>\<open>s.lower()\<close>\<close>

definition lower :: "string \<Rightarrow> string" where
  "lower s = map lower_char s"

text \<open>\<^verbatim>\<open>sep.join(parts)\<close>\<close>

fun join :: "string \<Rightarrow> string list \<Rightarrow> string" where
  "join sep [] = []"
| "join sep [p] = p"
| "join sep (p # q # ps) = p @ sep @ join sep (q # ps)"

definition is_space :: "char \<Rightarrow> bool" where
  "is_space c = (let n = (of_char c :: nat) in (9 \<le> n \<and> n \<le> 13) \<or> (28 \<le> n \<and> n \<le> 32))"

text \<open>\<^verbatim>\<open>s.strip()\<close>\<close>

definition strip :: "string \<Rightarrow> string" where
  "strip s = rev (dropWhile is_space (rev (dropWhile is_space s)))"

text \<open>
  \<^verbatim>\<open>a in b\<close> on two strings is the contiguous-substring test, \<^const>\<open>sublist\<close> of the
  library. \<^verbatim>\<open>opt and a in opt.lower()\<close>, for a nullable column \<open>opt\<close>, is:
\<close>

definition contained_in :: "string \<Rightarrow> string option \<Rightarrow> bool" where
  "contained_in a opt =
     (case opt of None \<Rightarrow> False | Some s \<Rightarrow> s \<noteq> [] \<and> sublist a (lower s))"

text \<open>Truthiness of an optional string and of an optional number.\<close>

definition truthy_str :: "string option \<Rightarrow> bool" where
  "truthy_str opt = (case opt of None \<Rightarrow> False | Some s \<Rightarrow> s \<noteq> [])"

definition truthy_num :: "'a::zero option \<Rightarrow> bool" where
  "truthy_num opt = (case opt of None \<Rightarrow> False | Some x \<Rightarrow> x \<noteq> 0)"

subsection \<open>Data model\<close>

text \<open>
  \<^verbatim>\<open>app/models/course.py\<close>. Columns the engine never reads (institution, currency,
  deadlines, rank, code, timestamps) are left out. \<^verbatim>\<open>nullable=True\<close> columns are
  options; \<^verbatim>\<open>modality\<close> and \<^verbatim>\<open>language_of_instruction\<close> are \<^verbatim>\<open>nullable=False\<close>.
\<close>

record Skill =
  skill_name :: string

record CareerOutcome =
  title :: string
  outcome_description :: "string option"

record Course =
  course_id :: int
  name :: string
  description :: "string option"
  location_city :: "string option"
  location_country :: "string option"
  language_of_instruction :: string
  modality :: string
  duration_months :: "int option"
  tuition_fee :: "real option"
  entry_requirements :: "string option"
  course_level :: "string option"
  skills :: "Skill list"
  career_outcomes :: "CareerOutcome list"

text \<open>\<^verbatim>\<open>RecommendationRequest\<close> of \<^verbatim>\<open>app/schemas/recommendation.py\<close>.\<close>

record RecommendationRequest =
  req_skills :: "string list option"
  req_interests :: "string list option"
  req_location :: "string option"
  req_modality :: "string option"
  req_language_of_instruction :: "string option"
  req_career_goals :: "string option"
  req_academic_background :: "string option"
  req_time_horizon :: "string option"
  req_max_tuition :: "real option"
  req_course_level :: "string option"
  req_max_duration_months :: "int option"
  req_university_rank_preference :: "string option"
  skill_weight :: real
  interest_weight :: real
  location_weight :: real
  career_weight :: real

text \<open>
  \<^verbatim>\<open>RecommendationRequest()\<close>: the request in which every field is left out, so that
  each one takes the default its \<^verbatim>\<open>Field\<close> declares.
\<close>

definition default_request :: RecommendationRequest where
  "default_request =
     \<lparr> req_skills = Some [], req_interests = Some [], req_location = None,
       req_modality = None, req_language_of_instruction = Some ''English'',
       req_career_goals = None, req_academic_background = None, req_time_horizon = None,
       req_max_tuition = None, req_course_level = None, req_max_duration_months = None,
       req_university_rank_preference = None,
       skill_weight = 0.4, interest_weight = 0.3, location_weight = 0.15,
       career_weight = 0.15 \<rparr>"

text \<open>The \<^verbatim>\<open>ge\<close>/\<^verbatim>\<open>le\<close>/\<^verbatim>\<open>gt\<close> constraints the request schema validates.\<close>

definition valid_request :: "RecommendationRequest \<Rightarrow> bool" where
  "valid_request r =
     ((case req_max_tuition r of None \<Rightarrow> True | Some t \<Rightarrow> 0 \<le> t) \<and>
      (case req_max_duration_months r of None \<Rightarrow> True | Some d \<Rightarrow> 0 < d) \<and>
      0 \<le> skill_weight r \<and> skill_weight r \<le> 1 \<and>
      0 \<le> interest_weight r \<and> interest_weight r \<le> 1 \<and>
      0 \<le> location_weight r \<and> location_weight r \<le> 1 \<and>
      0 \<le> career_weight r \<and> career_weight r \<le> 1)"

datatype error = ValidationError | LibraryError

text \<open>
  \<^verbatim>\<open>CourseMatch\<close>. The explanation string and the list of matched skill names are
  left out: they carry no constraint and no score depends on them.
\<close>

record CourseMatch =
  course :: Course
  match_score :: real
  skill_match_score :: real
  interest_match_score :: real
  location_match_score :: real
  career_match_score :: real
  missing_requirements :: "string list"
  similar_alternatives :: "int list"

definition unit_interval :: "real \<Rightarrow> bool" where
  "unit_interval x = (0 \<le> x \<and> x \<le> 1)"

text \<open>
  The \<^verbatim>\<open>CourseMatch(...)\<close> constructor: pydantic checks \<^verbatim>\<open>ge=0.0, le=1.0\<close> on the
  five score fields and raises \<^verbatim>\<open>ValidationError\<close> when one of them fails. The
  constraints of the nested course schema are not part of this model, so the model's
  constructor succeeds on every program whose five scores are in range.
\<close>

definition new_CourseMatch :: "CourseMatch \<Rightarrow> error + CourseMatch" where
  "new_CourseMatch m =
     (if unit_interval (match_score m) \<and> unit_interval (skill_match_score m) \<and>
         unit_interval (interest_match_score m) \<and> unit_interval (location_match_score m) \<and>
         unit_interval (career_match_score m)
      then Inr m else Inl ValidationError)"

datatype search_metadata =
    NoCourses string
  | Analysed (total_courses_analyzed: nat) (query_skills_count: nat)
      (query_interests_count: nat) (average_match_score: real)
      (filter_location: bool) (filter_modality: bool) (filter_max_tuition: bool)
      (filter_course_level: bool)

record RecommendationResponse =
  recommendations :: "CourseMatch list"
  total_matches :: nat
  metadata :: search_metadata
  suggestions :: "string list"

text \<open>The dictionary \<^verbatim>\<open>_calculate_course_score\<close> returns (without the skill matches).\<close>

record ScoreData =
  sd_course :: Course
  total_score :: real
  content_score :: real
  location_score :: real
  career_score :: real
  filter_score :: real

subsection \<open>The engine and the library it calls\<close>

text \<open>
  \<^verbatim>\<open>fit_transform\<close> stands for \<^verbatim>\<open>TfidfVectorizer(...).fit_transform(docs)\<close> and yields
  the fitted index. \<^verbatim>\<open>similarity m q i\<close> stands for the body of the \<^verbatim>\<open>try\<close> block of
  \<^verbatim>\<open>_calculate_content_similarity\<close>: transform the query, take row \<open>i\<close> of the matrix,
  and compute the cosine similarity. Either may raise.
\<close>

record 'm sklearn =
  fit_transform :: "string list \<Rightarrow> error + 'm"
  similarity :: "'m \<Rightarrow> string \<Rightarrow> nat \<Rightarrow> error + real"

record 'm Engine =
  courses_cache :: "Course list"
  course_skill_matrix :: "'m option"

text \<open>\<^verbatim>\<open>__init__\<close>\<close>

definition new_Engine :: "'m Engine" where
  "new_Engine = \<lparr> courses_cache = [], course_skill_matrix = None \<rparr>"

text \<open>\<^verbatim>\<open>_load_courses\<close>: \<open>db\<close> is the result of \<^verbatim>\<open>self.db.query(Course).all()\<close>.\<close>

definition load_courses :: "Course list \<Rightarrow> 'm Engine \<Rightarrow> 'm Engine" where
  "load_courses db e = e\<lparr>courses_cache := db\<rparr>"

definition course_document :: "Course \<Rightarrow> string" where
  "course_document c =
     (let skills_text = join '' '' (map (\<lambda>s. lower (skill_name s)) (skills c));
          careers_text = join '' '' (map (\<lambda>k. lower (title k)) (career_outcomes c));
          course_text = strip (lower (name c) @ '' '' @
                          (case description c of None \<Rightarrow> [] | Some d \<Rightarrow> d))
      in skills_text @ '' '' @ careers_text @ '' '' @ course_text)"

definition build_skill_vectors :: "'m sklearn \<Rightarrow> 'm Engine \<Rightarrow> error + 'm Engine" where
  "build_skill_vectors lib e =
     (if courses_cache e = [] then Inr e
      else
        let course_skill_docs = map course_document (courses_cache e) in
        if course_skill_docs \<noteq> [] then
          (case fit_transform lib course_skill_docs of
             Inl err \<Rightarrow> Inl err
           | Inr m \<Rightarrow> Inr (e\<lparr>course_skill_matrix := Some m\<rparr>))
        else Inr e)"

definition initialize :: "'m sklearn \<Rightarrow> Course list \<Rightarrow> 'm Engine \<Rightarrow> error + 'm Engine" where
  "initialize lib db e = build_skill_vectors lib (load_courses db e)"

subsection \<open>Scoring\<close>

definition build_user_query :: "RecommendationRequest \<Rightarrow> string" where
  "build_user_query request =
     join '' ''
       ((case req_skills request of None \<Rightarrow> [] | Some ss \<Rightarrow> map lower ss) @
        (case req_interests request of None \<Rightarrow> [] | Some is \<Rightarrow> map lower is) @
        (case req_career_goals request of
           None \<Rightarrow> [] | Some g \<Rightarrow> if g = [] then [] else [lower g]))"

definition calculate_content_similarity ::
    "'m sklearn \<Rightarrow> 'm Engine \<Rightarrow> string \<Rightarrow> nat \<Rightarrow> error + real" where
  "calculate_content_similarity lib e user_query course_index =
     (if user_query = [] then Inr 0
      else
        (case course_skill_matrix e of
           None \<Rightarrow> Inr 0
         | Some m \<Rightarrow>
             (case similarity lib m user_query course_index of
                Inr v \<Rightarrow> Inr v
              | Inl err \<Rightarrow> Inr 0)))"

definition calculate_location_score :: "Course \<Rightarrow> RecommendationRequest \<Rightarrow> real" where
  "calculate_location_score c request =
     (case req_location request of
        None \<Rightarrow> 1
      | Some loc \<Rightarrow>
          if loc = [] then 1
          else
            let request_location = lower loc in
            if modality c \<noteq> [] \<and> lower (modality c) = ''online'' then 1
            else if contained_in request_location (location_city c) then 1
            else if contained_in request_location (location_country c) then 0.7
            else 0.1)"

text \<open>
  The \<^verbatim>\<open>for\<close> loop of \<^verbatim>\<open>_calculate_career_score\<close>: \<open>Some v\<close> when the loop returns \<open>v\<close>
  from inside, \<open>None\<close> when it runs to its end.
\<close>

fun career_outcomes_loop :: "string \<Rightarrow> CareerOutcome list \<Rightarrow> real option" where
  "career_outcomes_loop career_goals_lower [] = None"
| "career_outcomes_loop career_goals_lower (career_outcome # rest) =
     (if sublist career_goals_lower (lower (title career_outcome)) then Some 1
      else if contained_in career_goals_lower (outcome_description career_outcome)
           then Some 0.8
      else career_outcomes_loop career_goals_lower rest)"

definition calculate_career_score :: "Course \<Rightarrow> RecommendationRequest \<Rightarrow> real" where
  "calculate_career_score c request =
     (case req_career_goals request of
        None \<Rightarrow> 1
      | Some goals \<Rightarrow>
          if goals = [] then 1
          else
            let career_goals_lower = lower goals in
            (case career_outcomes_loop career_goals_lower (career_outcomes c) of
               Some v \<Rightarrow> v
             | None \<Rightarrow>
                 if contained_in career_goals_lower (description c) then 0.6 else 0.3))"

text \<open>
  \<^verbatim>\<open>_calculate_filter_score\<close>. Each nested pair of \<^verbatim>\<open>if\<close>s is one guard: the outer
  one tests truthiness of the two values, the inner one compares them.
\<close>

definition calculate_filter_score :: "Course \<Rightarrow> RecommendationRequest \<Rightarrow> real" where
  "calculate_filter_score c request =
     (if truthy_str (req_modality request) \<and> modality c \<noteq> [] \<and>
         lower (the (req_modality request)) \<noteq> lower (modality c)
      then 0.0
      else if truthy_str (req_language_of_instruction request) \<and>
         lower (language_of_instruction c) \<noteq> lower (the (req_language_of_instruction request))
      then 0.1
      else if truthy_num (req_max_tuition request) \<and> truthy_num (tuition_fee c) \<and>
         the (tuition_fee c) > the (req_max_tuition request)
      then 0.2
      else if truthy_num (req_max_duration_months request) \<and> truthy_num (duration_months c) \<and>
         the (duration_months c) > the (req_max_duration_months request)
      then 0.3
      else if truthy_str (req_course_level request) \<and> truthy_str (course_level c) \<and>
         lower (the (req_course_level request)) \<noteq> lower (the (course_level c))
      then 0.5
      else 1.0)"

text \<open>The bracketed sum of \<^verbatim>\<open>_calculate_course_score\<close>, before the filter is applied.\<close>

definition weighted_sum :: "RecommendationRequest \<Rightarrow> real \<Rightarrow> real \<Rightarrow> real \<Rightarrow> real" where
  "weighted_sum request content location career =
     content * (skill_weight request + interest_weight request) +
     location * location_weight request +
     career * career_weight request"

definition calculate_course_score ::
    "'m sklearn \<Rightarrow> 'm Engine \<Rightarrow> Course \<Rightarrow> RecommendationRequest \<Rightarrow> string \<Rightarrow> nat
       \<Rightarrow> error + ScoreData" where
  "calculate_course_score lib e c request user_query course_index =
     (case calculate_content_similarity lib e user_query course_index of
        Inl err \<Rightarrow> Inl err
      | Inr content \<Rightarrow>
          let location = calculate_location_score c request;
              career = calculate_career_score c request;
              filt = calculate_filter_score c request;
              total = weighted_sum request content location career * filt
          in Inr \<lparr> sd_course = c, total_score = total, content_score = content,
                   location_score = location, career_score = career,
                   filter_score = filt \<rparr>)"

subsection \<open>Ranking and reporting\<close>

text \<open>
  The scoring loop of \<^verbatim>\<open>get_recommendations\<close>: \<^verbatim>\<open>enumerate\<close> supplies the index, and
  a candidate is appended when its total exceeds the threshold.
\<close>

fun score_courses ::
    "'m sklearn \<Rightarrow> 'm Engine \<Rightarrow> RecommendationRequest \<Rightarrow> string \<Rightarrow> nat \<Rightarrow> Course list
       \<Rightarrow> error + ScoreData list" where
  "score_courses lib e request user_query i [] = Inr []"
| "score_courses lib e request user_query i (c # cs) =
     (case calculate_course_score lib e c request user_query i of
        Inl err \<Rightarrow> Inl err
      | Inr score_data \<Rightarrow>
          (case score_courses lib e request user_query (Suc i) cs of
             Inl err \<Rightarrow> Inl err
           | Inr rest \<Rightarrow>
               Inr (if total_score score_data > 0.1 then score_data # rest else rest)))"

text \<open>
  \<^verbatim>\<open>course_scores.sort(key=lambda x: x['total_score'], reverse=True)\<close>. Python's sort
  is stable, also with \<^verbatim>\<open>reverse=True\<close>; \<^const>\<open>sort_key\<close> is the stable insertion sort.
\<close>

definition sort_by_total_score_reverse :: "ScoreData list \<Rightarrow> ScoreData list" where
  "sort_by_total_score_reverse xs = sort_key (\<lambda>x. - total_score x) xs"

text \<open>\<^verbatim>\<open>xs[:limit]\<close>: a negative \<open>limit\<close> counts from the end of the list.\<close>

definition slice_to :: "int \<Rightarrow> 'a list \<Rightarrow> 'a list" where
  "slice_to limit xs =
     (if 0 \<le> limit then take (nat limit) xs else take (length xs - nat (- limit)) xs)"

definition create_course_match :: "ScoreData \<Rightarrow> error + CourseMatch" where
  "create_course_match score_data =
     (let c = sd_course score_data;
          missing = (if truthy_str (entry_requirements c)
                     then [''Please check entry requirements''] else [])
      in new_CourseMatch
           \<lparr> course = c,
             match_score = total_score score_data,
             skill_match_score = content_score score_data,
             interest_match_score = content_score score_data,
             location_match_score = location_score score_data,
             career_match_score = career_score score_data,
             missing_requirements = missing,
             similar_alternatives = [] \<rparr>)"

text \<open>The loop that converts the truncated list; the first failing constructor ends it.\<close>

fun create_course_matches :: "ScoreData list \<Rightarrow> error + CourseMatch list" where
  "create_course_matches [] = Inr []"
| "create_course_matches (score_data # rest) =
     (case create_course_match score_data of
        Inl err \<Rightarrow> Inl err
      | Inr course_match \<Rightarrow>
          (case create_course_matches rest of
             Inl err \<Rightarrow> Inl err
           | Inr ms \<Rightarrow> Inr (course_match # ms)))"

text \<open>\<^verbatim>\<open>np.mean\<close> of a non-empty list.\<close>

definition mean :: "real list \<Rightarrow> real" where
  "mean xs = sum_list xs / real (length xs)"

definition generate_search_metadata ::
    "'m Engine \<Rightarrow> RecommendationRequest \<Rightarrow> ScoreData list \<Rightarrow> search_metadata" where
  "generate_search_metadata e request course_scores =
     Analysed (length (courses_cache e))
       (case req_skills request of None \<Rightarrow> 0 | Some ss \<Rightarrow> length ss)
       (case req_interests request of None \<Rightarrow> 0 | Some is \<Rightarrow> length is)
       (if course_scores \<noteq> [] then mean (map total_score course_scores) else 0)
       (truthy_str (req_location request))
       (truthy_str (req_modality request))
       (truthy_num (req_max_tuition request))
       (truthy_str (req_course_level request))"

definition generate_suggestions :: "RecommendationRequest \<Rightarrow> ScoreData list \<Rightarrow> string list" where
  "generate_suggestions request course_scores =
     (if length course_scores < 5
      then [''Try expanding your location preferences or considering online courses'']
      else []) @
     (if req_skills request = None \<or> req_skills request = Some []
      then [''Add specific skills to get more targeted recommendations'']
      else []) @
     (if truthy_num (req_max_tuition request) \<and> the (req_max_tuition request) < 10000
      then [''Consider increasing your budget or looking for scholarship opportunities'']
      else []) @
     (if course_scores \<noteq> [] \<and> mean (map total_score course_scores) < 0.3
      then [''Your criteria might be too specific. Try broadening your preferences'']
      else [])"

text \<open>
  \<^verbatim>\<open>get_recommendations\<close>. The engine initialises itself from the database when its
  cache is empty; the function returns the response (the initialised engine is what
  \<^const>\<open>initialize\<close> returns).
\<close>

definition get_recommendations ::
    "'m sklearn \<Rightarrow> Course list \<Rightarrow> 'm Engine \<Rightarrow> RecommendationRequest \<Rightarrow> int
       \<Rightarrow> error + RecommendationResponse" where
  "get_recommendations lib db e request limit =
     (case (if courses_cache e = [] then initialize lib db e else Inr e) of
        Inl err \<Rightarrow> Inl err
      | Inr e1 \<Rightarrow>
          if courses_cache e1 = [] then
            Inr \<lparr> recommendations = [], total_matches = 0,
                  metadata = NoCourses ''No courses available'',
                  suggestions = [''Please ensure courses are loaded in the database''] \<rparr>
          else
            let user_query = build_user_query request in
            (case score_courses lib e1 request user_query 0 (courses_cache e1) of
               Inl err \<Rightarrow> Inl err
             | Inr scored \<Rightarrow>
                 let course_scores = sort_by_total_score_reverse scored in
                 (case create_course_matches (slice_to limit course_scores) of
                    Inl err \<Rightarrow> Inl err
                  | Inr recs \<Rightarrow>
                      Inr \<lparr> recommendations = recs,
                            total_matches = length course_scores,
                            metadata = generate_search_metadata e1 request course_scores,
                            suggestions = generate_suggestions request course_scores \<rparr>)))"

section \<open>Specification-side definitions\<close>

subsection \<open>The filter rules as the specification lists them\<close>

text \<open>
  One predicate per rule. A preference is specified when it is neither \<^verbatim>\<open>None\<close> nor
  empty (nor zero); a program attribute is known under the same condition; two strings
  differ when their lower-cased forms do.
\<close>

definition modality_mismatch :: "Course \<Rightarrow> RecommendationRequest \<Rightarrow> bool" where
  "modality_mismatch c request =
     (case req_modality request of
        None \<Rightarrow> False
      | Some m \<Rightarrow> m \<noteq> [] \<and> modality c \<noteq> [] \<and> lower m \<noteq> lower (modality c))"

definition language_mismatch :: "Course \<Rightarrow> RecommendationRequest \<Rightarrow> bool" where
  "language_mismatch c request =
     (case req_language_of_instruction request of
        None \<Rightarrow> False
      | Some l \<Rightarrow> l \<noteq> [] \<and> lower l \<noteq> lower (language_of_instruction c))"

definition tuition_exceeded :: "Course \<Rightarrow> RecommendationRequest \<Rightarrow> bool" where
  "tuition_exceeded c request =
     (case (req_max_tuition request, tuition_fee c) of
        (Some mx, Some fee) \<Rightarrow> mx \<noteq> 0 \<and> fee \<noteq> 0 \<and> mx < fee
      | _ \<Rightarrow> False)"

definition duration_exceeded :: "Course \<Rightarrow> RecommendationRequest \<Rightarrow> bool" where
  "duration_exceeded c request =
     (case (req_max_duration_months request, duration_months c) of
        (Some mx, Some d) \<Rightarrow> mx \<noteq> 0 \<and> d \<noteq> 0 \<and> mx < d
      | _ \<Rightarrow> False)"

definition level_mismatch :: "Course \<Rightarrow> RecommendationRequest \<Rightarrow> bool" where
  "level_mismatch c request =
     (case (req_course_level request, course_level c) of
        (Some l, Some cl) \<Rightarrow> l \<noteq> [] \<and> cl \<noteq> [] \<and> lower l \<noteq> lower cl
      | _ \<Rightarrow> False)"

text \<open>The rule table in the listed order, each rule with its penalty.\<close>

definition filter_rules :: "((Course \<Rightarrow> RecommendationRequest \<Rightarrow> bool) \<times> real) list" where
  "filter_rules =
     [(modality_mismatch, 0.0), (language_mismatch, 0.1), (tuition_exceeded, 0.2),
      (duration_exceeded, 0.3), (level_mismatch, 0.5)]"

text \<open>The first violated rule of a table decides; the multiplier is 1.0 when none is.\<close>

fun first_violated ::
    "((Course \<Rightarrow> RecommendationRequest \<Rightarrow> bool) \<times> real) list \<Rightarrow> Course
       \<Rightarrow> RecommendationRequest \<Rightarrow> real" where
  "first_violated [] c request = 1.0"
| "first_violated ((violated, penalty) # rules) c request =
     (if violated c request then penalty else first_violated rules c request)"

subsection \<open>The location score as the specification words it\<close>

definition location_spec :: "Course \<Rightarrow> RecommendationRequest \<Rightarrow> real" where
  "location_spec c request =
     (case req_location request of
        None \<Rightarrow> 1.0
      | Some loc \<Rightarrow>
          if loc = [] then 1.0
          else if lower (modality c) = ''online'' then 1.0
          else if (case location_city c of
                     None \<Rightarrow> False | Some city \<Rightarrow> sublist (lower loc) (lower city))
          then 1.0
          else if (case location_country c of
                     None \<Rightarrow> False | Some country \<Rightarrow> sublist (lower loc) (lower country))
          then 0.7
          else 0.1)"

subsection \<open>Ranking\<close>





subsection \<open>Concrete programs, requests and a library\<close>

definition berlin_course :: Course where
  "berlin_course =
     \<lparr> course_id = 1, name = ''Informatik'', description = None,
       location_city = Some ''Berlin'', location_country = Some ''Germany'',
       language_of_instruction = ''German'', modality = ''in-person'',
       duration_months = Some 24, tuition_fee = Some 20000,
       entry_requirements = None, course_level = Some ''graduate'',
       skills = [], career_outcomes = [] \<rparr>"

definition london_course :: Course where
  "london_course =
     \<lparr> course_id = 2, name = ''Data Science'',
       description = Some ''Statistics and programming'',
       location_city = Some ''London'', location_country = Some ''United Kingdom'',
       language_of_instruction = ''English'', modality = ''in-person'',
       duration_months = Some 12, tuition_fee = Some 9000,
       entry_requirements = Some ''Bachelor degree'', course_level = Some ''graduate'',
       skills = [\<lparr>skill_name = ''Python''\<rparr>],
       career_outcomes =
         [\<lparr>title = ''Data Analyst'',
           outcome_description = Some ''Works alongside software engineer teams''\<rparr>,
          \<lparr>title = ''Software Engineer'', outcome_description = None\<rparr>] \<rparr>"

definition three_courses :: "Course list" where
  "three_courses =
     [berlin_course, london_course,
      berlin_course\<lparr>course_id := 3, language_of_instruction := ''English''\<rparr>]"

text \<open>A library whose index always builds and whose similarity is one half.\<close>

definition constant_lib :: "unit sklearn" where
  "constant_lib = \<lparr> fit_transform = (\<lambda>docs. Inr ()), similarity = (\<lambda>m q i. Inr 0.5) \<rparr>"

text \<open>A library whose similarity computation always raises.\<close>

definition failing_lib :: "unit sklearn" where
  "failing_lib =
     \<lparr> fit_transform = (\<lambda>docs. Inr ()), similarity = (\<lambda>m q i. Inl LibraryError) \<rparr>"

text \<open>The default request with the location and career weights raised to 1.\<close>

definition heavy_request :: RecommendationRequest where
  "heavy_request = default_request\<lparr>location_weight := 1, career_weight := 1\<rparr>"

text \<open>A request in which every filter field is \<^verbatim>\<open>None\<close>.\<close>

definition no_filter_request :: RecommendationRequest where
  "no_filter_request = default_request\<lparr>req_language_of_instruction := None\<rparr>"


definition engineer_request :: RecommendationRequest where
  "engineer_request = default_request\<lparr>req_career_goals := Some ''software engineer''\<rparr>"

definition online_request :: RecommendationRequest where
  "online_request = default_request\<lparr>req_modality := Some ''online''\<rparr>"

definition zero_tuition_request :: RecommendationRequest where
  "zero_tuition_request = no_filter_request\<lparr>req_max_tuition := Some 0\<rparr>"

text \<open>An engine that has loaded three programs and built its index.\<close>

definition built_engine :: "unit Engine" where
  "built_engine = \<lparr> courses_cache = three_courses, course_skill_matrix = Some () \<rparr>"



text \<open>
  A program whose document has the three terms \<open>python\<close>, \<open>java\<close> and \<open>python java\<close>,
  and a request whose query text has the same three terms.
\<close>

definition python_java_course :: Course where
  "python_java_course =
     \<lparr> course_id = 5, name = ''Python Java'', description = None,
       location_city = Some ''Dublin'', location_country = Some ''Ireland'',
       language_of_instruction = ''English'', modality = ''in-person'',
       duration_months = Some 12, tuition_fee = Some 5000,
       entry_requirements = None, course_level = Some ''graduate'',
       skills = [], career_outcomes = [] \<rparr>"

definition python_java_request :: RecommendationRequest where
  "python_java_request = default_request\<lparr>req_skills := Some [''python java'']\<rparr>"

text \<open>
  A library that returns the double next above 1, which is 1.0000000000000002, one
  plus two to the power -52: the rounded cosine of two parallel vectors with three
  equal components, each the rounded inverse of the square root of 3, whose three
  squares sum to that double.
\<close>

definition rounding_lib :: "unit sklearn" where
  "rounding_lib =
     \<lparr> fit_transform = (\<lambda>docs. Inr ()), similarity = (\<lambda>m q i. Inr (1 + 1 / 2 ^ 52)) \<rparr>"

definition python_java_engine :: "unit Engine" where
  "python_java_engine =
     \<lparr> courses_cache = [python_java_course], course_skill_matrix = Some () \<rparr>"

section \<open>Basic facts\<close>

lemma lower_Nil [simp]: "lower [] = []"
  by (simp add: lower_def)

lemma lower_Nil_iff [simp]: "lower s = [] \<longleftrightarrow> s = []"
  by (simp add: lower_def)

lemma contained_in_nonempty:
  "a \<noteq> [] \<Longrightarrow>
   contained_in a opt = (case opt of None \<Rightarrow> False | Some s \<Rightarrow> sublist a (lower s))"
  by (cases opt) (auto simp: contained_in_def)

subsection \<open>Each guard of the filter is one rule of the specification\<close>

lemma modality_mismatch_guard:
  "modality_mismatch c request \<longleftrightarrow>
     truthy_str (req_modality request) \<and> modality c \<noteq> [] \<and>
     lower (the (req_modality request)) \<noteq> lower (modality c)"
  by (cases "req_modality request") (simp_all add: modality_mismatch_def truthy_str_def)

lemma language_mismatch_guard:
  "language_mismatch c request \<longleftrightarrow>
     truthy_str (req_language_of_instruction request) \<and>
     lower (language_of_instruction c) \<noteq> lower (the (req_language_of_instruction request))"
  by (cases "req_language_of_instruction request")
     (auto simp: language_mismatch_def truthy_str_def)

lemma tuition_exceeded_guard:
  "tuition_exceeded c request \<longleftrightarrow>
     truthy_num (req_max_tuition request) \<and> truthy_num (tuition_fee c) \<and>
     the (tuition_fee c) > the (req_max_tuition request)"
  by (cases "req_max_tuition request"; cases "tuition_fee c")
     (simp_all add: tuition_exceeded_def truthy_num_def)

lemma duration_exceeded_guard:
  "duration_exceeded c request \<longleftrightarrow>
     truthy_num (req_max_duration_months request) \<and> truthy_num (duration_months c) \<and>
     the (duration_months c) > the (req_max_duration_months request)"
  by (cases "req_max_duration_months request"; cases "duration_months c")
     (simp_all add: duration_exceeded_def truthy_num_def)

lemma level_mismatch_guard:
  "level_mismatch c request \<longleftrightarrow>
     truthy_str (req_course_level request) \<and> truthy_str (course_level c) \<and>
     lower (the (req_course_level request)) \<noteq> lower (the (course_level c))"
  by (cases "req_course_level request"; cases "course_level c")
     (simp_all add: level_mismatch_def truthy_str_def)

lemma filter_score_rules:
  "calculate_filter_score c request = first_violated filter_rules c request"
  unfolding calculate_filter_score_def filter_rules_def first_violated.simps
    modality_mismatch_guard language_mismatch_guard tuition_exceeded_guard
    duration_exceeded_guard level_mismatch_guard
  by (rule refl)

subsection \<open>Ranges of the sub-scores\<close>

lemma content_similarity_returns:
  "\<exists>v. calculate_content_similarity lib e q i = Inr v"
  by (simp add: calculate_content_similarity_def split: option.splits sum.splits)

lemma course_score_returns:
  "\<exists>sd. calculate_course_score lib e c request q i = Inr sd"
  using content_similarity_returns [of lib e q i]
  by (auto simp: calculate_course_score_def Let_def)

lemma location_score_range:
  "0 \<le> calculate_location_score c request \<and> calculate_location_score c request \<le> 1"
  by (cases "req_location request") (simp_all add: calculate_location_score_def Let_def)

lemma career_outcomes_loop_values:
  "career_outcomes_loop g ks = Some v \<Longrightarrow> v = 1 \<or> v = 0.8"
  by (induction ks) (auto split: if_splits)

lemma career_score_range:
  "0 \<le> calculate_career_score c request \<and> calculate_career_score c request \<le> 1"
proof (cases "req_career_goals request")
  case None
  then show ?thesis by (simp add: calculate_career_score_def)
next
  case goals: (Some goals)
  show ?thesis
  proof (cases "career_outcomes_loop (lower goals) (career_outcomes c)")
    case None
    with goals show ?thesis by (simp add: calculate_career_score_def Let_def)
  next
    case (Some v)
    from career_outcomes_loop_values [OF Some] goals Some
    show ?thesis by (auto simp: calculate_career_score_def Let_def)
  qed
qed

lemma filter_score_range:
  "0 \<le> calculate_filter_score c request \<and> calculate_filter_score c request \<le> 1"
  by (simp add: calculate_filter_score_def)

subsection \<open>The scoring loop, the sort and the conversion loop\<close>



lemma score_courses_returns:
  "\<exists>scored. score_courses lib e request q k cs = Inr scored"
proof (induction cs arbitrary: k)
  case Nil
  show ?case by simp
next
  case (Cons c cs)
  obtain sd where "calculate_course_score lib e c request q k = Inr sd"
    using course_score_returns by blast
  moreover obtain rest where "score_courses lib e request q (Suc k) cs = Inr rest"
    using Cons by blast
  ultimately show ?case by simp
qed







subsection \<open>The content similarity never raises\<close>

lemma content_similarity_zero_cases:
  "(q = [] \<or> course_skill_matrix e = None \<longrightarrow>
      calculate_content_similarity lib e q i = Inr 0) \<and>
   (\<forall>m err. course_skill_matrix e = Some m \<and> similarity lib m q i = Inl err \<longrightarrow>
      calculate_content_similarity lib e q i = Inr 0) \<and>
   (\<forall>m v. q \<noteq> [] \<and> course_skill_matrix e = Some m \<and> similarity lib m q i = Inr v \<longrightarrow>
      calculate_content_similarity lib e q i = Inr v)"
  by (auto simp: calculate_content_similarity_def)

section \<open>The claims\<close>

text \<open>
  Claim C1. For every valid query run against any catalog, \<^verbatim>\<open>get_recommendations\<close>
  returns a response and never raises; every \<^verbatim>\<open>CourseMatch\<close> it constructs has a
  match score within the schema's bound [0,1], also when the four weights sum to more
  than 1.

  The code does not normalise the weighted sum. For the default request with location
  and career weight 1 (a valid request) and a one-program catalog, the total score of
  the program is 2, and the \<^verbatim>\<open>CourseMatch\<close> constructor raises.
\<close>

theorem heavy_weights_raise_validation_error:
  "valid_request heavy_request \<and>
   (case calculate_course_score constant_lib
           \<lparr> courses_cache = [london_course], course_skill_matrix = Some () \<rparr>
           london_course heavy_request (build_user_query heavy_request) 0 of
      Inl err \<Rightarrow> 0
    | Inr sd \<Rightarrow> total_score sd) = 2 \<and>
   get_recommendations constant_lib [london_course] new_Engine heavy_request 20 =
     Inl ValidationError"
  by code_simp

text \<open>
  Claim C2. The career score is 1.0 whenever the goal text is a case-insensitive
  substring of the title of any career outcome of the program, whichever other
  outcomes' descriptions contain it too.

  The loop returns at the first outcome whose title or description contains the goal.
  For a program whose first outcome mentions the goal in its description and whose
  second outcome has it as its title, the score is 0.8.
\<close>

theorem career_score_description_before_title:
  "sublist (lower ''software engineer'') (lower (title (career_outcomes london_course ! 1))) \<and>
   calculate_career_score london_course engineer_request = 0.8"
  by code_simp

text \<open>
  Claim C3, as stated: a filter field left absent from the query imposes no penalty,
  and with every filter field absent the multiplier is 1.0 for every program. It fails
  for the language: a request that leaves every field out carries the schema default
  \<^verbatim>\<open>"English"\<close>, and a program taught in German gets the multiplier 0.1.
\<close>

theorem omitted_language_is_penalised:
  "calculate_filter_score berlin_course default_request = 0.1 \<and>
   calculate_filter_score berlin_course default_request \<noteq> 1.0"
  by code_simp

text \<open>
  Claim C3, amended: a filter field whose value is \<^verbatim>\<open>None\<close> (or empty, or zero) imposes
  no penalty. The multiplier is never the penalty of a rule whose request field is
  falsy, the location score is 1.0 without a location, and the multiplier is 1.0 when
  all five filter fields are falsy.
\<close>

theorem falsy_filter_field_no_penalty:
  "(\<not> truthy_str (req_modality request) \<longrightarrow> calculate_filter_score c request \<noteq> 0.0) \<and>
   (\<not> truthy_str (req_language_of_instruction request) \<longrightarrow>
      calculate_filter_score c request \<noteq> 0.1) \<and>
   (\<not> truthy_num (req_max_tuition request) \<longrightarrow> calculate_filter_score c request \<noteq> 0.2) \<and>
   (\<not> truthy_num (req_max_duration_months request) \<longrightarrow>
      calculate_filter_score c request \<noteq> 0.3) \<and>
   (\<not> truthy_str (req_course_level request) \<longrightarrow> calculate_filter_score c request \<noteq> 0.5) \<and>
   (\<not> truthy_str (req_location request) \<longrightarrow> calculate_location_score c request = 1.0) \<and>
   (\<not> truthy_str (req_modality request) \<and>
    \<not> truthy_str (req_language_of_instruction request) \<and>
    \<not> truthy_num (req_max_tuition request) \<and>
    \<not> truthy_num (req_max_duration_months request) \<and>
    \<not> truthy_str (req_course_level request) \<longrightarrow> calculate_filter_score c request = 1.0)"
proof -
  have loc: "calculate_location_score c request = 1" if "\<not> truthy_str (req_location request)"
    using that by (cases "req_location request")
      (simp_all add: calculate_location_score_def truthy_str_def)
  show ?thesis
    using loc by (simp add: calculate_filter_score_def)
qed

theorem falsy_filter_field_no_penalty_witness:
  "\<not> truthy_str (req_modality no_filter_request) \<and>
   \<not> truthy_str (req_language_of_instruction no_filter_request) \<and>
   \<not> truthy_num (req_max_tuition no_filter_request) \<and>
   \<not> truthy_num (req_max_duration_months no_filter_request) \<and>
   \<not> truthy_str (req_course_level no_filter_request) \<and>
   \<not> truthy_str (req_location no_filter_request) \<and>
   calculate_filter_score berlin_course no_filter_request \<noteq> 0.1 \<and>
   calculate_location_score berlin_course no_filter_request = 1.0 \<and>
   calculate_filter_score berlin_course no_filter_request = 1.0"
proof -
  have h: "\<not> truthy_str (req_modality no_filter_request)"
      "\<not> truthy_str (req_language_of_instruction no_filter_request)"
      "\<not> truthy_num (req_max_tuition no_filter_request)"
      "\<not> truthy_num (req_max_duration_months no_filter_request)"
      "\<not> truthy_str (req_course_level no_filter_request)"
      "\<not> truthy_str (req_location no_filter_request)"
    by code_simp+
  from falsy_filter_field_no_penalty [of no_filter_request berlin_course] h
  show ?thesis by blast
qed

text \<open>
  Claim C4. The filter multiplier is decided by the first violated rule in the order
  modality (0.0), language (0.1), tuition (0.2), duration (0.3), course level (0.5), and
  is 1.0 when no rule fires. When a modality preference is specified and differs from
  the program's modality, the multiplier and the total score are 0.0, whatever the
  other sub-scores and filter fields are.
\<close>

theorem filter_score_first_violated_rule:
  "calculate_filter_score c request = first_violated filter_rules c request \<and>
   (modality_mismatch c request \<longrightarrow>
      calculate_filter_score c request = 0 \<and>
      (\<exists>sd. calculate_course_score lib e c request q i = Inr sd \<and> total_score sd = 0))"
proof -
  have "calculate_filter_score c request = 0" if "modality_mismatch c request"
    using that by (simp add: filter_score_rules filter_rules_def)
  moreover have
    "\<exists>sd. calculate_course_score lib e c request q i = Inr sd \<and> total_score sd = 0"
    if "calculate_filter_score c request = 0"
    using that content_similarity_returns [of lib e q i]
    by (auto simp: calculate_course_score_def Let_def)
  ultimately show ?thesis
    using filter_score_rules by blast
qed

theorem filter_score_first_violated_rule_witness:
  "modality_mismatch berlin_course online_request \<and>
   calculate_filter_score berlin_course online_request = 0 \<and>
   (\<exists>sd. calculate_course_score constant_lib built_engine berlin_course online_request
            ''python'' 0 = Inr sd \<and> total_score sd = 0)"
proof -
  have h: "modality_mismatch berlin_course online_request"
    by code_simp
  from filter_score_first_violated_rule
         [of berlin_course online_request constant_lib built_engine "''python''" 0] h
  show ?thesis by blast
qed

text \<open>
  Claim C5. The location score is 1.0 if the query has no location preference; else 1.0
  if the program's modality is "online"; else 1.0 if the preferred location is a
  case-insensitive substring of the program's city; else 0.7 if it is a substring of the
  program's country; else 0.1. For a program in Berlin, Germany, taught in person, the
  query locations "Berlin", "Germany" and "Paris" score 1.0, 0.7 and 0.1.
\<close>

theorem location_score_cases:
  "calculate_location_score c request = location_spec c request \<and>
   calculate_location_score berlin_course (default_request\<lparr>req_location := Some ''Berlin''\<rparr>)
     = 1.0 \<and>
   calculate_location_score berlin_course (default_request\<lparr>req_location := Some ''Germany''\<rparr>)
     = 0.7 \<and>
   calculate_location_score berlin_course (default_request\<lparr>req_location := Some ''Paris''\<rparr>)
     = 0.1"
proof -
  have eq: "calculate_location_score c request = location_spec c request"
  proof (cases "req_location request")
    case None
    then show ?thesis by (simp add: calculate_location_score_def location_spec_def)
  next
    case (Some loc)
    show ?thesis
    proof (cases "loc = []")
      case True
      with Some show ?thesis by (simp add: calculate_location_score_def location_spec_def)
    next
      case False
      then have ne: "lower loc \<noteq> []" by simp
      have online: "(modality c \<noteq> [] \<and> lower (modality c) = ''online'') \<longleftrightarrow>
                    lower (modality c) = ''online''"
        by auto
      show ?thesis
        using Some False
        by (simp add: calculate_location_score_def location_spec_def Let_def
            contained_in_nonempty [OF ne] online)
    qed
  qed
  have ex: "calculate_location_score berlin_course
              (default_request\<lparr>req_location := Some ''Berlin''\<rparr>) = 1.0 \<and>
            calculate_location_score berlin_course
              (default_request\<lparr>req_location := Some ''Germany''\<rparr>) = 0.7 \<and>
            calculate_location_score berlin_course
              (default_request\<lparr>req_location := Some ''Paris''\<rparr>) = 0.1"
    by code_simp
  from eq ex show ?thesis by blast
qed




text \<open>
  Claim C7. For every query and every program, each of the four sub-scores (content,
  location, career, filter) lies in [0,1], and the total score before the filter
  multiplier is applied lies between 0 and the sum of the four weights.

  The content score is the library's cosine similarity, passed through without a
  bound. For a program and a query with the same three terms the library returns the
  double next above 1, and that is the content score: the default request is valid,
  the content score exceeds 1, and the \<^verbatim>\<open>CourseMatch\<close> constructor, which bounds the
  skill score by 1, raises.
\<close>

theorem content_score_above_one:
  "valid_request python_java_request \<and>
   (case calculate_course_score rounding_lib python_java_engine python_java_course
           python_java_request (build_user_query python_java_request) 0 of
      Inl err \<Rightarrow> 0
    | Inr sd \<Rightarrow> content_score sd) = 1 + 1 / 2 ^ 52 \<and>
   \<not> unit_interval (1 + 1 / 2 ^ 52) \<and>
   get_recommendations rounding_lib [python_java_course] new_Engine python_java_request 20 =
     Inl ValidationError"
  by code_simp

text \<open>
  Claim C8. Calling \<^verbatim>\<open>get_recommendations\<close> against an empty catalog returns a
  well-formed response with \<open>total_matches = 0\<close>, an empty recommendation list and a
  non-empty suggestion list, rather than failing.
\<close>

theorem empty_catalog_response:
  "courses_cache e = [] \<Longrightarrow>
   \<exists>resp. get_recommendations lib [] e request limit = Inr resp \<and>
          total_matches resp = 0 \<and> recommendations resp = [] \<and> suggestions resp \<noteq> []"
  by (simp add: get_recommendations_def initialize_def load_courses_def
      build_skill_vectors_def)

theorem empty_catalog_response_witness:
  "courses_cache (new_Engine :: unit Engine) = [] \<and>
   (\<exists>resp. get_recommendations failing_lib [] new_Engine default_request 20 = Inr resp \<and>
          total_matches resp = 0 \<and> recommendations resp = [] \<and> suggestions resp \<noteq> [])"
proof -
  have h: "courses_cache (new_Engine :: unit Engine) = []"
    by (simp add: new_Engine_def)
  from empty_catalog_response [OF h, of failing_lib default_request 20] h
  show ?thesis by blast
qed

text \<open>
  Claim C9. The content-similarity computation returns a value in [0,1], returns 0.0
  when the query text is empty or the index was never built, and never raises: an error
  while scoring one program yields the content score 0.0 for that program and does not
  abort the ranking of the remaining programs.

  The computation returns what the library returns. For the query \<open>python java\<close>
  against a program with the same three terms that is the double next above 1, which
  is not in [0,1].
\<close>

theorem content_similarity_above_one:
  "build_user_query python_java_request = ''python java'' \<and>
   course_skill_matrix python_java_engine = Some () \<and>
   calculate_content_similarity rounding_lib python_java_engine ''python java'' 0 =
     Inr (1 + 1 / 2 ^ 52) \<and>
   (1::real) < 1 + 1 / 2 ^ 52"
  by code_simp

text \<open>
  Claim C10. When the query's \<open>max_tuition\<close> is 0.0 (which the request schema accepts)
  or the program's \<open>tuition_fee\<close> is 0.0, the tuition rule is skipped: the multiplier
  is the one of the same query without a tuition ceiling, and it is never the tuition
  penalty 0.2, however high the program's tuition is.
\<close>

theorem zero_tuition_skips_rule:
  "req_max_tuition request = Some 0 \<or> tuition_fee c = Some 0 \<Longrightarrow>
   calculate_filter_score c request =
     calculate_filter_score c (request\<lparr>req_max_tuition := None\<rparr>) \<and>
   calculate_filter_score c request \<noteq> 0.2"
  by (auto simp: calculate_filter_score_def truthy_num_def)

theorem zero_tuition_skips_rule_witness:
  "valid_request zero_tuition_request \<and>
   tuition_fee berlin_course = Some 20000 \<and>
   (req_max_tuition zero_tuition_request = Some 0 \<or> tuition_fee berlin_course = Some 0) \<and>
   calculate_filter_score berlin_course zero_tuition_request =
     calculate_filter_score berlin_course (zero_tuition_request\<lparr>req_max_tuition := None\<rparr>) \<and>
   calculate_filter_score berlin_course zero_tuition_request \<noteq> 0.2"
proof -
  have v: "valid_request zero_tuition_request"
    by code_simp
  have t: "tuition_fee berlin_course = Some 20000"
    by (simp add: berlin_course_def)
  have h: "req_max_tuition zero_tuition_request = Some 0 \<or> tuition_fee berlin_course = Some 0"
    by (simp add: zero_tuition_request_def no_filter_request_def)
  from zero_tuition_skips_rule [OF h] v t h
  show ?thesis by blast
qed

end
